theory Spec2Isabelle
  imports Complex_Main "HOL-Library.Log_Nat" "HOL-Library.List_Lexorder" "HOL-Library.Char_ord"
begin

section \<open>hds-osc: health record, receivers and exporters\<close>

text \<open>
  A shallow embedding of the Go program: the health record and its \<open>Update\<close>
  method, the HDS push receiver, the WebSocket pull receiver with its reconnect loop,
  and the three exporters (HTTP/WebSocket server, OSC sender, Prometheus endpoint).
  Functions of the Go standard library and of third-party packages that the program
  calls (JSON decoding, \<open>strconv.ParseFloat\<close>) are parameters of the model; the
  clock reading \<open>time.Now()\<close> and the outcome of network operations are inputs.
\<close>

subsection \<open>float64\<close>

text \<open>
  A \<open>float64\<close> is a finite value (kept as the rational it denotes), an infinity or
  NaN. The sign of zero is not distinguished. \<open>float64_round\<close> is IEEE 754
  round-to-nearest, ties-to-even, to 53 significant bits, with gradual underflow
  (least exponent \<open>-1074\<close>) and overflow to infinity.
\<close>

datatype float64 = Finite rat | PosInf | NegInf | NaN

definition ilog2 :: "rat \<Rightarrow> int" where
  "ilog2 a = (let (p, q) = quotient_of a; d = bitlen p - bitlen q
              in if 2 powi d \<le> a then d else d - 1)"

definition round_half_even :: "rat \<Rightarrow> int" where
  "round_half_even m =
     (let f = \<lfloor>m\<rfloor>; r = m - of_int f
      in if r < 1 / 2 then f
         else if 1 / 2 < r then f + 1
         else if even f then f else f + 1)"

definition float64_round :: "rat \<Rightarrow> float64" where
  "float64_round r =
     (if r = 0 then Finite 0
      else
        let a = \<bar>r\<bar>;
            t = max (ilog2 a - 52) (- 1074);
            v = of_int (round_half_even (a / 2 powi t)) * 2 powi t
        in if 2 powi 1024 \<le> v then (if 0 < r then PosInf else NegInf)
           else Finite (sgn r * v))"

text \<open>The conversion \<open>float64(i)\<close> of an integer.\<close>

definition float64_of_int :: "int \<Rightarrow> float64" where
  "float64_of_int i = float64_round (of_int i)"

text \<open>The quotient \<open>a / b\<close> of two \<open>float64\<close> values.\<close>

fun float64_div :: "float64 \<Rightarrow> float64 \<Rightarrow> float64" where
  "float64_div NaN _ = NaN"
| "float64_div _ NaN = NaN"
| "float64_div (Finite x) (Finite y) =
     (if y = 0 then (if x = 0 then NaN else if 0 < x then PosInf else NegInf)
      else float64_round (x / y))"
| "float64_div (Finite x) _ = Finite 0"
| "float64_div PosInf (Finite y) = (if 0 \<le> y then PosInf else NegInf)"
| "float64_div NegInf (Finite y) = (if 0 \<le> y then NegInf else PosInf)"
| "float64_div _ _ = NaN"

text \<open>
  The conversion \<open>int(x)\<close> of a \<open>float64\<close> to Go's 64-bit \<open>int\<close>: the fraction
  is discarded (truncation towards zero). For NaN, the infinities and values outside
  the range of \<open>int\<close> the language leaves the result to the implementation; the
  value \<open>-2^63\<close> produced on amd64 is used.
\<close>

definition int_of_float64 :: "float64 \<Rightarrow> int" where
  "int_of_float64 x =
     (case x of
        Finite r \<Rightarrow>
          (let t = (if 0 \<le> r then \<lfloor>r\<rfloor> else \<lceil>r\<rceil>)
           in if - (2 ^ 63) \<le> t \<and> t < 2 ^ 63 then t else - (2 ^ 63))
      | _ \<Rightarrow> - (2 ^ 63))"

subsection \<open>Time\<close>

text \<open>
  A \<open>time.Time\<close> is the number of nanoseconds since the zero instant
  (January 1, year 1, 00:00:00 UTC); a \<open>time.Duration\<close> is a signed 64-bit count of
  nanoseconds, kept as an integer with the wrap-around of its arithmetic written out.
\<close>

type_synonym time = int
type_synonym duration = int

definition wrap64 :: "int \<Rightarrow> int" where
  "wrap64 x = (x + 2 ^ 63) mod 2 ^ 64 - 2 ^ 63"

definition maxDuration :: duration where
  "maxDuration = 2 ^ 63 - 1"

definition minDuration :: duration where
  "minDuration = - (2 ^ 63)"

definition Second :: duration where
  "Second = 1000000000"

definition Minute :: duration where
  "Minute = wrap64 (60 * Second)"

definition IsZero :: "time \<Rightarrow> bool" where
  "IsZero t = (t = 0)"

text \<open>\<open>t.Sub(u)\<close> saturates at the largest and smallest duration.\<close>

definition Sub :: "time \<Rightarrow> time \<Rightarrow> duration" where
  "Sub t u = (if maxDuration < t - u then maxDuration
              else if t - u < minDuration then minDuration else t - u)"

text \<open>\<open>time.Since(t)\<close> is \<open>time.Now().Sub(t)\<close>; the clock reading is an input.\<close>

definition Since :: "time \<Rightarrow> time \<Rightarrow> duration" where
  "Since now t = Sub now t"

subsection \<open>The health record\<close>

record healthData =
  Time :: time
  HeartRate :: int
  StepCount :: int
  DistanceTraveled :: float64
  Speed :: float64
  Calories :: int

text \<open>The zero value of the struct.\<close>

definition zero_healthData :: healthData where
  "zero_healthData =
     \<lparr>Time = 0, HeartRate = 0, StepCount = 0, DistanceTraveled = Finite 0,
      Speed = Finite 0, Calories = 0\<rparr>"

text \<open>What the program emits besides its return values.\<close>

datatype level = Info | Warn | Error

record osc_message =
  Address :: string
  Arguments :: "float64 list"

datatype event =
    Log level string
  | ExporterUpdate nat healthData string
  | OscSend osc_message
  | Sleep duration

text \<open>\<open>func (d *healthData) Update(key string, value float64)\<close>\<close>

definition healthData_Update ::
  "healthData \<Rightarrow> string \<Rightarrow> float64 \<Rightarrow> time \<Rightarrow> healthData \<times> event list" where
  "healthData_Update d key v now =
     (let d = d\<lparr>Time := now\<rparr>
      in if key = ''heartRate'' then (d\<lparr>HeartRate := int_of_float64 v\<rparr>, [])
         else if key = ''stepCount'' then (d\<lparr>StepCount := int_of_float64 v\<rparr>, [])
         else if key = ''distanceTraveled'' then (d\<lparr>DistanceTraveled := v\<rparr>, [])
         else if key = ''speed'' then (d\<lparr>Speed := v\<rparr>, [])
         else if key = ''calories'' then (d\<lparr>Calories := int_of_float64 v\<rparr>, [])
         else (d, [Log Warn ''Unknown key'']))"

subsection \<open>Library functions taken as parameters\<close>

record hdsRequest =
  Data :: string

record wsUpdateMessage =
  Data :: healthData
  UpdatedKey :: string

record osc_client =
  client_ip :: string
  client_port :: int

text \<open>
  \<open>json_Decode_hdsRequest\<close> and \<open>json_Decode_wsUpdateMessage\<close> stand for
  \<open>json.NewDecoder(...).Decode\<close> at the two struct types (\<open>Inl\<close> is the error),
  \<open>strconv_ParseFloat\<close> for \<open>strconv.ParseFloat(s, 64)\<close> (\<open>None\<close> when it
  returns an error) and \<open>osc_Client_Send\<close> for the \<open>Send\<close> method of the OSC
  client (\<open>None\<close> when the packet went out).
\<close>

record lib =
  json_Decode_hdsRequest :: "string \<Rightarrow> string + hdsRequest"
  json_Decode_wsUpdateMessage :: "string \<Rightarrow> string + wsUpdateMessage"
  strconv_ParseFloat :: "string \<Rightarrow> float64 option"
  osc_Client_Send :: "osc_client \<Rightarrow> osc_message \<Rightarrow> string option"

text \<open>
  \<open>strings.Split(s, sep)\<close> for a separator of one byte: the pieces of \<open>s\<close>
  between the occurrences of the separator, one more than there are occurrences.
\<close>

fun strings_Split :: "string \<Rightarrow> char \<Rightarrow> string list" where
  "strings_Split [] sep = [[]]"
| "strings_Split (c # cs) sep =
     (if c = sep then [] # strings_Split cs sep
      else (case strings_Split cs sep of
              [] \<Rightarrow> [[c]]
            | p # ps \<Rightarrow> (c # p) # ps))"

subsection \<open>HTTP responses\<close>

datatype metric_kind = Gauge | Counter

record metric_family =
  family_name :: string
  family_help :: string
  family_kind :: metric_kind
  family_value :: float64

datatype body =
    NoBody
  | Text string
  | JSON healthData
  | Metrics "metric_family list"

record response =
  status :: nat
  body :: body

definition StatusOK :: nat where
  "StatusOK = 200"

definition StatusBadRequest :: nat where
  "StatusBadRequest = 400"

definition StatusNotFound :: nat where
  "StatusNotFound = 404"

text \<open>\<open>http.Error(w, msg, code)\<close> writes the status and the message followed by a newline.\<close>

definition http_Error :: "string \<Rightarrow> nat \<Rightarrow> response" where
  "http_Error msg code = \<lparr>status = code, body = Text (msg @ [CHR 0x0A])\<rparr>"

subsection \<open>The HTTP and WebSocket server exporter\<close>

text \<open>
  A subscriber is the goroutine running \<open>connectWS\<close> for one connection, known to the
  exporter by its channel. The channel is unbuffered, so a send on it goes through
  exactly when the goroutine is blocked in the \<open>select\<close> of its loop. The phases of
  the goroutine: \<open>Initial\<close> (registered, before the first frame), \<open>Selecting\<close>
  (blocked in \<open>select\<close>), \<open>Writing msg\<close> (holding a message taken from the channel,
  in \<open>WriteJSON\<close>), \<open>Returned\<close> (the handler has returned). \<open>frames\<close> are the
  frames written to the connection so far.
\<close>

datatype phase = Initial | Selecting | Writing wsUpdateMessage | Returned

record subscriber =
  phase :: phase
  frames :: "wsUpdateMessage list"

text \<open>
  \<open>clients\<close> and \<open>data\<close> are the fields of the Go struct (the mutex is rendered by
  running each critical section as one step). \<open>subscribers\<close> maps a channel to the
  goroutine reading it and \<open>made\<close> counts the channels created so far, so that
  \<open>make(chan ...)\<close> yields a fresh one.
\<close>

record httpServerExporter =
  clients :: "nat list"
  data :: healthData
  subscribers :: "nat \<Rightarrow> subscriber"
  made :: nat

definition newHTTPServerExporter :: "int \<Rightarrow> httpServerExporter" where
  "newHTTPServerExporter port =
     \<lparr>clients = [], httpServerExporter.data = zero_healthData,
      subscribers = (\<lambda>_. \<lparr>phase = Returned, frames = []\<rparr>), made = 0\<rparr>"

text \<open>The non-blocking send \<open>select { case ch <- &msg: default: }\<close>.\<close>

definition try_send ::
  "(nat \<Rightarrow> subscriber) \<Rightarrow> nat \<Rightarrow> wsUpdateMessage \<Rightarrow> (nat \<Rightarrow> subscriber)" where
  "try_send subs ch msg =
     (if phase (subs ch) = Selecting then subs(ch := (subs ch)\<lparr>phase := Writing msg\<rparr>)
      else subs)"

fun send_all ::
  "wsUpdateMessage \<Rightarrow> nat list \<Rightarrow> (nat \<Rightarrow> subscriber) \<Rightarrow> (nat \<Rightarrow> subscriber)" where
  "send_all msg [] subs = subs"
| "send_all msg (ch # chs) subs = send_all msg chs (try_send subs ch msg)"

text \<open>\<open>func (h *httpServerExporter) Update(data healthData, updatedKey string) error\<close>\<close>

definition httpServerExporter_Update ::
  "httpServerExporter \<Rightarrow> healthData \<Rightarrow> string \<Rightarrow> httpServerExporter \<times> string option" where
  "httpServerExporter_Update h d updatedKey =
     (let msg = \<lparr>wsUpdateMessage.Data = d, UpdatedKey = updatedKey\<rparr>
      in (h\<lparr>subscribers := send_all msg (clients h) (subscribers h)\<rparr>, None))"

text \<open>
  \<open>func (h *httpServerExporter) getLatest(w, _)\<close>. \<open>Encode\<close> fails on a record
  holding NaN or an infinity; the status line has gone out by then, and the error text
  becomes the body.
\<close>

definition json_encodable :: "healthData \<Rightarrow> bool" where
  "json_encodable d =
     ((case DistanceTraveled d of Finite _ \<Rightarrow> True | _ \<Rightarrow> False) \<and>
      (case Speed d of Finite _ \<Rightarrow> True | _ \<Rightarrow> False))"

definition getLatest :: "httpServerExporter \<Rightarrow> response \<times> event list" where
  "getLatest h =
     (if IsZero (Time (httpServerExporter.data h))
      then (\<lparr>status = StatusNotFound, body = NoBody\<rparr>, [])
      else if json_encodable (httpServerExporter.data h)
      then (\<lparr>status = StatusOK, body = JSON (httpServerExporter.data h)\<rparr>, [])
      else (\<lparr>status = StatusOK, body = Text (''Internal Server Error'' @ [CHR 0x0A])\<rparr>,
            [Log Error ''Serving GET /latest'']))"

text \<open>The deferred function of \<open>connectWS\<close>: \<open>lo.Without(h.clients, ch)\<close>.\<close>

definition connectWS_return ::
  "httpServerExporter \<Rightarrow> nat \<Rightarrow> httpServerExporter \<times> event list" where
  "connectWS_return h ch =
     (h\<lparr>clients := removeAll ch (clients h),
        subscribers := (subscribers h)(ch := (subscribers h ch)\<lparr>phase := Returned\<rparr>)\<rparr>,
      [Log Info ''Closing WebSocket connection''])"

text \<open>
  \<open>connectWS\<close> up to the registration of the new channel; \<open>upgraded\<close> tells whether
  \<open>Upgrade\<close> succeeded.
\<close>

definition connectWS_register ::
  "httpServerExporter \<Rightarrow> bool \<Rightarrow> httpServerExporter \<times> nat option \<times> event list" where
  "connectWS_register h upgraded =
     (if \<not> upgraded then (h, None, [Log Error ''Upgrading connection''])
      else
        let ch = made h
        in (h\<lparr>clients := clients h @ [ch],
              subscribers := (subscribers h)(ch := \<lparr>phase = Initial, frames = []\<rparr>),
              made := Suc (made h)\<rparr>,
            Some ch, [Log Info ''New WebSocket connection'']))"

text \<open>
  ``Send first data (if any)'': the step of the goroutine of \<open>ch\<close> from \<open>Initial\<close>;
  \<open>written\<close> tells whether \<open>WriteJSON\<close> succeeds.
\<close>

definition connectWS_first ::
  "httpServerExporter \<Rightarrow> nat \<Rightarrow> bool \<Rightarrow> httpServerExporter \<times> event list" where
  "connectWS_first h ch written =
     (let d = httpServerExporter.data h; s = subscribers h ch
      in if phase s \<noteq> Initial then (h, [])
         else if \<not> IsZero (Time d) then
           (let msg = \<lparr>wsUpdateMessage.Data = d, UpdatedKey = ''all''\<rparr>
            in if written
               then (h\<lparr>subscribers :=
                          (subscribers h)(ch := \<lparr>phase = Selecting, frames = frames s @ [msg]\<rparr>)\<rparr>,
                     [])
               else (let (h', ev) = connectWS_return h ch
                     in (h', Log Error ''Writing message'' # ev)))
         else (h\<lparr>subscribers := (subscribers h)(ch := s\<lparr>phase := Selecting\<rparr>)\<rparr>, []))"

text \<open>
  ``Send real-time data'': one turn of the loop of the goroutine of \<open>ch\<close>. From
  \<open>Selecting\<close> it can only leave through \<open>ctx.Done()\<close> (\<open>cancelled\<close>); holding a
  message it writes the frame and selects again, or returns when the write fails.
\<close>

definition connectWS_loop ::
  "httpServerExporter \<Rightarrow> nat \<Rightarrow> bool \<Rightarrow> bool \<Rightarrow> httpServerExporter \<times> event list" where
  "connectWS_loop h ch cancelled written =
     (let s = subscribers h ch
      in case phase s of
           Selecting \<Rightarrow> (if cancelled then connectWS_return h ch else (h, []))
         | Writing msg \<Rightarrow>
             (if written
              then (h\<lparr>subscribers :=
                         (subscribers h)(ch := \<lparr>phase = Selecting, frames = frames s @ [msg]\<rparr>)\<rparr>,
                    [])
              else (let (h', ev) = connectWS_return h ch
                    in (h', Log Error ''Writing message'' # ev)))
         | _ \<Rightarrow> (h, []))"

text \<open>
  A whole connection attempt up to the loop: registration followed at once by the
  first frame. The result carries the channel of the new subscriber.
\<close>

definition connectWS ::
  "httpServerExporter \<Rightarrow> bool \<Rightarrow> bool \<Rightarrow> httpServerExporter \<times> nat option \<times> event list" where
  "connectWS h upgraded written =
     (case connectWS_register h upgraded of
        (h', None, ev) \<Rightarrow> (h', None, ev)
      | (h', Some ch, ev) \<Rightarrow>
          (let (h'', ev') = connectWS_first h' ch written in (h'', Some ch, ev @ ev')))"

subsection \<open>The OSC exporter\<close>

record oscExporter =
  client :: osc_client
  heartRateMax :: float64
  addrName :: string



text \<open>\<open>func (o *oscExporter) Update(data healthData, updatedKey string) error\<close>\<close>

definition oscExporter_Update ::
  "lib \<Rightarrow> oscExporter \<Rightarrow> healthData \<Rightarrow> string \<Rightarrow> event list \<times> string option" where
  "oscExporter_Update l o_exp d updatedKey =
     (if updatedKey \<noteq> ''heartRate'' \<and> updatedKey \<noteq> ''all'' then ([], None)
      else
        let floatRate = float64_div (float64_of_int (HeartRate d)) (heartRateMax o_exp);
            msg = \<lparr>Address = addrName o_exp, Arguments = [floatRate]\<rparr>
        in ([OscSend msg], osc_Client_Send l (client o_exp) msg))"

subsection \<open>The Prometheus exporter\<close>

text \<open>
  The registry holds five function collectors, each reading one field of the
  exporter's record when it is collected. \<open>Gather\<close> returns the metric families
  ordered by name; the body of a scrape is their rendering, kept here as the list of
  families.
\<close>

record collector =
  collector_name :: string
  collector_help :: string
  collector_kind :: metric_kind
  collector_read :: "healthData \<Rightarrow> float64"

record prometheusExporter =
  data :: healthData

definition registry :: "collector list" where
  "registry =
     [\<lparr>collector_name = ''heart_rate'',
       collector_help = ''Current heart rate in beats per minute'',
       collector_kind = Gauge,
       collector_read = (\<lambda>d. float64_of_int (HeartRate d))\<rparr>,
      \<lparr>collector_name = ''step_count'',
       collector_help = ''Current step count'',
       collector_kind = Counter,
       collector_read = (\<lambda>d. float64_of_int (StepCount d))\<rparr>,
      \<lparr>collector_name = ''distance_traveled'',
       collector_help = ''Current distance traveled in meters'',
       collector_kind = Counter,
       collector_read = (\<lambda>d. DistanceTraveled d)\<rparr>,
      \<lparr>collector_name = ''speed'',
       collector_help = ''Current speed in meters per second'',
       collector_kind = Gauge,
       collector_read = (\<lambda>d. Speed d)\<rparr>,
      \<lparr>collector_name = ''calories'',
       collector_help = ''Current calories burned'',
       collector_kind = Counter,
       collector_read = (\<lambda>d. float64_of_int (Calories d))\<rparr>]"

definition newPrometheusExporter :: "int \<Rightarrow> prometheusExporter" where
  "newPrometheusExporter p = \<lparr>prometheusExporter.data = zero_healthData\<rparr>"

definition collect :: "healthData \<Rightarrow> collector \<Rightarrow> metric_family" where
  "collect d c =
     \<lparr>family_name = collector_name c, family_help = collector_help c,
      family_kind = collector_kind c, family_value = collector_read c d\<rparr>"

definition Gather :: "prometheusExporter \<Rightarrow> metric_family list" where
  "Gather p = sort_key family_name (map (collect (prometheusExporter.data p)) registry)"

text \<open>\<open>func (p *prometheusExporter) Update(data healthData, _ string) error\<close>\<close>

definition prometheusExporter_Update ::
  "prometheusExporter \<Rightarrow> healthData \<Rightarrow> string \<Rightarrow> prometheusExporter \<times> string option" where
  "prometheusExporter_Update p d updatedKey = (p\<lparr>prometheusExporter.data := d\<rparr>, None)"

text \<open>\<open>func (p *prometheusExporter) ServeHTTP(w, r)\<close>, called at clock reading \<open>now\<close>.\<close>

definition ServeHTTP :: "prometheusExporter \<Rightarrow> time \<Rightarrow> response" where
  "ServeHTTP p now =
     (let lastReceived = Time (prometheusExporter.data p)
      in if IsZero lastReceived \<or> wrap64 (30 * Second) < Since now lastReceived
         then \<lparr>status = StatusOK, body = NoBody\<rparr>
         else \<lparr>status = StatusOK, body = Metrics (Gather p)\<rparr>)"

subsection \<open>The exporter interface\<close>

datatype exporter =
    HTTPServer httpServerExporter
  | OSC oscExporter
  | Prometheus prometheusExporter

fun exporter_Update ::
  "lib \<Rightarrow> exporter \<Rightarrow> healthData \<Rightarrow> string \<Rightarrow> exporter \<times> event list \<times> string option" where
  "exporter_Update l (HTTPServer h) d updatedKey =
     (let (h', err) = httpServerExporter_Update h d updatedKey in (HTTPServer h', [], err))"
| "exporter_Update l (OSC o_exp) d updatedKey =
     (let (ev, err) = oscExporter_Update l o_exp d updatedKey in (OSC o_exp, ev, err))"
| "exporter_Update l (Prometheus p) d updatedKey =
     (let (p', err) = prometheusExporter_Update p d updatedKey in (Prometheus p', [], err))"

text \<open>
  The loop \<open>for _, s := range exporters { if err = s.Update(d, key); err != nil { ... } }\<close>
  of both receivers. Each call is recorded as \<open>ExporterUpdate i d key\<close>, \<open>i\<close> the
  position of the exporter, followed by what the exporter emits.
\<close>

fun update_exporters ::
  "lib \<Rightarrow> nat \<Rightarrow> exporter list \<Rightarrow> healthData \<Rightarrow> string \<Rightarrow> exporter list \<times> event list" where
  "update_exporters l i [] d updatedKey = ([], [])"
| "update_exporters l i (s # ss) d updatedKey =
     (let (s', ev, err) = exporter_Update l s d updatedKey;
          logged = (case err of None \<Rightarrow> [] | Some e \<Rightarrow> [Log Error ''Sending data'']);
          (ss', evs) = update_exporters l (Suc i) ss d updatedKey
      in (s' # ss', ExporterUpdate i d updatedKey # ev @ logged @ evs))"

subsection \<open>The HDS push receiver\<close>

record hdsReceiver =
  exporters :: "exporter list"
  data :: healthData

definition newHDSReceiver :: "exporter list \<Rightarrow> hdsReceiver" where
  "newHDSReceiver exps = \<lparr>hdsReceiver.exporters = exps, hdsReceiver.data = zero_healthData\<rparr>"

text \<open>
  \<open>func (h *hdsReceiver) dataHandler(w, r)\<close> on a request with body \<open>req\<close>,
  \<open>time.Now()\<close> reading \<open>now\<close>.
\<close>

definition dataHandler ::
  "lib \<Rightarrow> hdsReceiver \<Rightarrow> string \<Rightarrow> time \<Rightarrow> hdsReceiver \<times> response \<times> event list" where
  "dataHandler l h req now =
     (case json_Decode_hdsRequest l req of
        Inl err \<Rightarrow>
          (h, http_Error err StatusBadRequest, [Log Error ''error decoding request''])
      | Inr decoded \<Rightarrow>
          (case strings_Split (hdsRequest.Data decoded) CHR '':'' of
             [key, valueStr] \<Rightarrow>
               (case strconv_ParseFloat l valueStr of
                  None \<Rightarrow>
                    (h, http_Error ''Invalid value format'' StatusBadRequest,
                     [Log Info ''Received hds req'', Log Error ''Error parsing value''])
                | Some v \<Rightarrow>
                    (let (d, warned) = healthData_Update (hdsReceiver.data h) key v now;
                         (exps, evs) = update_exporters l 0 (hdsReceiver.exporters h) d key
                     in (h\<lparr>hdsReceiver.exporters := exps, hdsReceiver.data := d\<rparr>,
                         \<lparr>status = StatusOK, body = NoBody\<rparr>,
                         Log Info ''Received hds req'' # warned @ evs)))
           | _ \<Rightarrow>
               (h, http_Error ''Invalid data format'' StatusBadRequest,
                [Log Info ''Received hds req'', Log Error ''Invalid data format''])))"

subsection \<open>The WebSocket pull receiver\<close>

record wsPullReceiver =
  exporters :: "exporter list"
  addr :: string
  nextBackoff :: duration

definition wsPullFirstWait :: duration where
  "wsPullFirstWait = Second"

definition wsPullMaxBackoff :: duration where
  "wsPullMaxBackoff = wrap64 (10 * Minute)"

definition newWSPullReceiver :: "exporter list \<Rightarrow> string \<Rightarrow> wsPullReceiver" where
  "newWSPullReceiver exps a =
     \<lparr>wsPullReceiver.exporters = exps, addr = a, nextBackoff = wsPullFirstWait\<rparr>"

text \<open>
  What the remote end does during one session: whether \<open>Dial\<close> fails, and what the
  successive calls of \<open>ReadMessage\<close> return: a message, an error that is
  \<open>io.EOF\<close>, or another error.
\<close>

datatype read_result = Message string | EOF | ReadError string

record session =
  dial :: "string option"
  reads :: "read_result list"

text \<open>
  The read loop of \<open>connect\<close>. The last component is \<open>None\<close> while the loop is
  still blocked in \<open>ReadMessage\<close> at the end of the given reads, \<open>Some None\<close>
  when it returned \<open>nil\<close>, and \<open>Some (Some e)\<close> when it returned the error \<open>e\<close>.
\<close>

fun connect_loop ::
  "lib \<Rightarrow> exporter list \<Rightarrow> read_result list \<Rightarrow>
   exporter list \<times> event list \<times> string option option" where
  "connect_loop l exps [] = (exps, [], None)"
| "connect_loop l exps (EOF # rs) = (exps, [], Some None)"
| "connect_loop l exps (ReadError e # rs) =
     (exps, [], Some (Some (''reading websocket: '' @ e)))"
| "connect_loop l exps (Message rawMsg # rs) =
     (case json_Decode_wsUpdateMessage l rawMsg of
        Inl e \<Rightarrow> (exps, [], Some (Some (''decoding websocket message: '' @ e)))
      | Inr msg \<Rightarrow>
          (let (exps', evs) =
                 update_exporters l 0 exps (wsUpdateMessage.Data msg) (UpdatedKey msg);
               (exps'', evs', r) = connect_loop l exps' rs
           in (exps'', Log Info ''Received msg'' # evs @ evs', r)))"

text \<open>\<open>func (h *wsPullReceiver) connect() error\<close>\<close>

definition connect ::
  "lib \<Rightarrow> wsPullReceiver \<Rightarrow> session \<Rightarrow> wsPullReceiver \<times> event list \<times> string option option" where
  "connect l h s =
     (case dial s of
        Some e \<Rightarrow> (h, [], Some (Some (''dialing websocket server: '' @ e)))
      | None \<Rightarrow>
          (let (exps, evs, r) = connect_loop l (wsPullReceiver.exporters h) (reads s)
           in (h\<lparr>wsPullReceiver.exporters := exps\<rparr>,
               Log Info ''WebSocket connected, now receiving messages...'' # evs, r)))"

text \<open>
  The body of the loop of \<open>func (h *wsPullReceiver) Start()\<close> after
  \<open>connect\<close> has returned \<open>err\<close>: the sleep before reconnecting.
\<close>

definition Start_sleep ::
  "wsPullReceiver \<Rightarrow> string option \<Rightarrow> wsPullReceiver \<times> event list" where
  "Start_sleep h err =
     (case err of
        None \<Rightarrow>
          (let h = h\<lparr>nextBackoff := wsPullFirstWait\<rparr>
           in (h, [Log Info ''Reconnecting in'', Sleep (nextBackoff h)]))
      | Some e \<Rightarrow>
          (h\<lparr>nextBackoff := min (wrap64 (nextBackoff h * 2)) wsPullMaxBackoff\<rparr>,
           [Log Error ''WebSocket connection'', Log Error ''Reconnecting in'',
            Sleep (nextBackoff h)]))"

text \<open>
  The loop of \<open>Start\<close> never ends by itself; it is run here against the sessions
  that the remote end provides, one turn for each, and stays in the first session in
  which \<open>connect\<close> does not return.
\<close>

fun Start :: "lib \<Rightarrow> wsPullReceiver \<Rightarrow> session list \<Rightarrow> wsPullReceiver \<times> event list" where
  "Start l h [] = (h, [])"
| "Start l h (s # ss) =
     (case connect l h s of
        (h1, evs, None) \<Rightarrow> (h1, evs)
      | (h1, evs, Some err) \<Rightarrow>
          (let (h2, evs2) = Start_sleep h1 err;
               (h3, evs3) = Start l h2 ss
           in (h3, evs @ evs2 @ evs3)))"

subsection \<open>Vocabulary of the properties\<close>

text \<open>The keys of the \<open>switch\<close> in \<open>healthData.Update\<close>.\<close>

definition recognizedKeys :: "string list" where
  "recognizedKeys = [''heartRate'', ''stepCount'', ''distanceTraveled'', ''speed'', ''calories'']"

fun is_ExporterUpdate :: "event \<Rightarrow> bool" where
  "is_ExporterUpdate (ExporterUpdate i d k) = True"
| "is_ExporterUpdate _ = False"

text \<open>
  An instance of the library parameters on which the model can be run: the request
  body is taken to be the decoded data string itself, two numerals parse, and
  every OSC packet goes out.
\<close>

definition test_lib :: lib where
  "test_lib =
     \<lparr>json_Decode_hdsRequest = (\<lambda>s. Inr \<lparr>hdsRequest.Data = s\<rparr>),
      json_Decode_wsUpdateMessage = (\<lambda>s. Inl ''unexpected''),
      strconv_ParseFloat =
        (\<lambda>s. if s = ''80'' then Some (Finite 80)
             else if s = ''0.5'' then Some (Finite (1 / 2)) else None),
      osc_Client_Send = (\<lambda>c m. None)\<rparr>"

text \<open>The waits of a run, and the range in which the backoff stays.\<close>

fun sleeps :: "event list \<Rightarrow> duration list" where
  "sleeps [] = []"
| "sleeps (Sleep d # evs) = d # sleeps evs"
| "sleeps (_ # evs) = sleeps evs"

definition backoff_ok :: "wsPullReceiver \<Rightarrow> bool" where
  "backoff_ok h = (1000000000 \<le> nextBackoff h \<and> nextBackoff h \<le> 600000000000)"

text \<open>Two sessions: one whose dial is refused, one that the remote end closes at once.\<close>

definition refused :: session where
  "refused = \<lparr>dial = Some ''connection refused'', reads = []\<rparr>"

definition closed_cleanly :: session where
  "closed_cleanly = \<lparr>dial = None, reads = [EOF]\<rparr>"

section \<open>Properties\<close>

subsection \<open>Splitting at the separator\<close>

lemma strings_Split_not_Nil: "strings_Split s c \<noteq> []"
  by (induction s) (auto split: list.splits)

lemma length_strings_Split: "length (strings_Split s c) = Suc (count_list s c)"
  by (induction s) (auto split: list.splits simp: strings_Split_not_Nil)

lemma strings_Split_no_sep: "c \<notin> set s \<Longrightarrow> strings_Split s c = [s]"
  by (induction s) auto

lemma strings_Split_append:
  "c \<notin> set k \<Longrightarrow> strings_Split (k @ c # v) c = k # strings_Split v c"
  by (induction k) auto

lemma strings_Split_pair:
  "c \<notin> set k \<Longrightarrow> c \<notin> set v \<Longrightarrow> strings_Split (k @ c # v) c = [k, v]"
  by (simp add: strings_Split_append strings_Split_no_sep)

lemma strings_Split_two:
  "strings_Split s c = [k, v] \<Longrightarrow> s = k @ c # v \<and> c \<notin> set k \<and> c \<notin> set v"
proof (induction s arbitrary: k)
  case Nil
  then show ?case by simp
next
  case (Cons x xs)
  show ?case
  proof (cases "x = c")
    case True
    with Cons.prems have k: "k = []" and v: "strings_Split xs c = [v]" by auto
    from v have "count_list xs c = 0"
      using length_strings_Split [of xs c] by simp
    then have "c \<notin> set xs" by (simp add: count_list_0_iff)
    with v have "v = xs" by (simp add: strings_Split_no_sep)
    with k True \<open>c \<notin> set xs\<close> show ?thesis by simp
  next
    case False
    with Cons.prems obtain p where p: "strings_Split xs c = [p, v]" and k: "k = x # p"
      by (auto split: list.splits)
    from Cons.IH [OF p] k False show ?thesis by simp
  qed
qed

subsection \<open>The push handler\<close>




lemma dataHandler_valid:
  assumes dec: "json_Decode_hdsRequest l req = Inr decoded"
    and dat: "hdsRequest.Data decoded = key @ CHR '':'' # valueStr"
    and k: "CHR '':'' \<notin> set key" and vs: "CHR '':'' \<notin> set valueStr"
    and pf: "strconv_ParseFloat l valueStr = Some v"
  shows "dataHandler l h req now =
    (h\<lparr>hdsReceiver.exporters := fst (update_exporters l 0 (hdsReceiver.exporters h)
           (fst (healthData_Update (hdsReceiver.data h) key v now)) key),
        hdsReceiver.data := fst (healthData_Update (hdsReceiver.data h) key v now)\<rparr>,
     \<lparr>status = StatusOK, body = NoBody\<rparr>,
     Log Info ''Received hds req'' # snd (healthData_Update (hdsReceiver.data h) key v now) @
       snd (update_exporters l 0 (hdsReceiver.exporters h)
           (fst (healthData_Update (hdsReceiver.data h) key v now)) key))"
  using dec dat pf strings_Split_pair [OF k vs]
  by (simp add: dataHandler_def split: prod.splits)

lemma dataHandler_invalid_format:
  assumes dec: "json_Decode_hdsRequest l req = Inr decoded"
    and n: "count_list (hdsRequest.Data decoded) CHR '':'' \<noteq> 1"
  shows "dataHandler l h req now =
    (h, http_Error ''Invalid data format'' StatusBadRequest,
     [Log Info ''Received hds req'', Log Error ''Invalid data format''])"
proof -
  have "length (strings_Split (hdsRequest.Data decoded) CHR '':'') \<noteq> 2"
    using n by (simp add: length_strings_Split)
  then show ?thesis
    using dec by (auto simp: dataHandler_def split: list.splits)
qed

lemma dataHandler_invalid_value:
  assumes dec: "json_Decode_hdsRequest l req = Inr decoded"
    and dat: "hdsRequest.Data decoded = key @ CHR '':'' # valueStr"
    and k: "CHR '':'' \<notin> set key" and vs: "CHR '':'' \<notin> set valueStr"
    and pf: "strconv_ParseFloat l valueStr = None"
  shows "dataHandler l h req now =
    (h, http_Error ''Invalid value format'' StatusBadRequest,
     [Log Info ''Received hds req'', Log Error ''Error parsing value''])"
  using dec dat pf strings_Split_pair [OF k vs]
  by (simp add: dataHandler_def)

lemma int_of_float64_80: "int_of_float64 (Finite 80) = 80"
  by (simp add: int_of_float64_def)

text \<open>
  C1. A push payload \<open>key:value\<close> with one of the five keys of the record and a value
  that \<open>ParseFloat\<close> accepts (such a value holds no separator): the handler answers
  200, the time of the record is the clock reading, the field named by the key holds
  the parsed value, converted to the type of the field, and every other field is as
  before.
\<close>

theorem C1_valid_push:
  assumes "json_Decode_hdsRequest l req = Inr \<lparr>hdsRequest.Data = key @ CHR '':'' # valueStr\<rparr>"
    and "key \<in> set recognizedKeys"
    and "CHR '':'' \<notin> set valueStr"
    and "strconv_ParseFloat l valueStr = Some v"
    and "dataHandler l h req now = (h', resp, evs)"
  shows "status resp = 200 \<and>
    Time (hdsReceiver.data h') = now \<and>
    HeartRate (hdsReceiver.data h') =
      (if key = ''heartRate'' then int_of_float64 v else HeartRate (hdsReceiver.data h)) \<and>
    StepCount (hdsReceiver.data h') =
      (if key = ''stepCount'' then int_of_float64 v else StepCount (hdsReceiver.data h)) \<and>
    DistanceTraveled (hdsReceiver.data h') =
      (if key = ''distanceTraveled'' then v else DistanceTraveled (hdsReceiver.data h)) \<and>
    Speed (hdsReceiver.data h') =
      (if key = ''speed'' then v else Speed (hdsReceiver.data h)) \<and>
    Calories (hdsReceiver.data h') =
      (if key = ''calories'' then int_of_float64 v else Calories (hdsReceiver.data h))"
proof -
  from assms(2) have k: "CHR '':'' \<notin> set key"
    by (auto simp: recognizedKeys_def)
  have "hdsRequest.Data \<lparr>hdsRequest.Data = key @ CHR '':'' # valueStr\<rparr> = key @ CHR '':'' # valueStr"
    by simp
  from dataHandler_valid [OF assms(1) this k assms(3) assms(4), of h now] assms(5)
  have h': "hdsReceiver.data h' = fst (healthData_Update (hdsReceiver.data h) key v now)"
    and r: "resp = \<lparr>status = StatusOK, body = NoBody\<rparr>"
    by auto
  from r have "status resp = 200" by (simp add: StatusOK_def)
  moreover from assms(2) have "key = ''heartRate'' \<or> key = ''stepCount'' \<or>
      key = ''distanceTraveled'' \<or> key = ''speed'' \<or> key = ''calories''"
    by (simp add: recognizedKeys_def)
  then have "Time (hdsReceiver.data h') = now \<and>
    HeartRate (hdsReceiver.data h') =
      (if key = ''heartRate'' then int_of_float64 v else HeartRate (hdsReceiver.data h)) \<and>
    StepCount (hdsReceiver.data h') =
      (if key = ''stepCount'' then int_of_float64 v else StepCount (hdsReceiver.data h)) \<and>
    DistanceTraveled (hdsReceiver.data h') =
      (if key = ''distanceTraveled'' then v else DistanceTraveled (hdsReceiver.data h)) \<and>
    Speed (hdsReceiver.data h') =
      (if key = ''speed'' then v else Speed (hdsReceiver.data h)) \<and>
    Calories (hdsReceiver.data h') =
      (if key = ''calories'' then int_of_float64 v else Calories (hdsReceiver.data h))"
    unfolding h' by (elim disjE) (simp_all add: healthData_Update_def)
  ultimately show ?thesis by simp
qed

theorem C1_valid_push_witness:
  "status (fst (snd (dataHandler test_lib (newHDSReceiver []) ''heartRate:80'' 1000))) = 200 \<and>
   hdsReceiver.data (fst (dataHandler test_lib (newHDSReceiver []) ''heartRate:80'' 1000)) =
     \<lparr>Time = 1000, HeartRate = 80, StepCount = 0, DistanceTraveled = Finite 0,
      Speed = Finite 0, Calories = 0\<rparr>"
proof -
  obtain h' resp evs where
    run: "dataHandler test_lib (newHDSReceiver []) ''heartRate:80'' 1000 = (h', resp, evs)"
    by (cases "dataHandler test_lib (newHDSReceiver []) ''heartRate:80'' 1000")
  have a1: "json_Decode_hdsRequest test_lib ''heartRate:80'' =
      Inr \<lparr>hdsRequest.Data = ''heartRate'' @ CHR '':'' # ''80''\<rparr>"
    by (simp add: test_lib_def)
  have a2: "''heartRate'' \<in> set recognizedKeys" by (simp add: recognizedKeys_def)
  have a3: "CHR '':'' \<notin> set ''80''" by simp
  have a4: "strconv_ParseFloat test_lib ''80'' = Some (Finite 80)" by (simp add: test_lib_def)
  from C1_valid_push [OF a1 a2 a3 a4 run]
  have "status resp = 200" and "hdsReceiver.data h' =
     \<lparr>Time = 1000, HeartRate = 80, StepCount = 0, DistanceTraveled = Finite 0,
      Speed = Finite 0, Calories = 0\<rparr>"
    by (simp_all add: newHDSReceiver_def zero_healthData_def int_of_float64_80)
  with run show ?thesis by simp
qed

text \<open>
  C2. A malformed push payload: the data string does not hold exactly one separator, or
  it does and the part after the separator is rejected by \<open>ParseFloat\<close>. The handler
  answers 400, the receiver (its record and its exporters) is as before, and no
  exporter's \<open>Update\<close> is called.
\<close>

theorem C2_malformed_push:
  assumes "json_Decode_hdsRequest l req = Inr decoded"
    and "count_list (hdsRequest.Data decoded) CHR '':'' \<noteq> 1 \<or>
         (\<exists>key valueStr. hdsRequest.Data decoded = key @ CHR '':'' # valueStr \<and>
            CHR '':'' \<notin> set key \<and> CHR '':'' \<notin> set valueStr \<and>
            strconv_ParseFloat l valueStr = None)"
  shows "\<exists>resp evs. dataHandler l h req now = (h, resp, evs) \<and> status resp = 400 \<and>
           filter is_ExporterUpdate evs = []"
  using assms(2)
proof
  assume "count_list (hdsRequest.Data decoded) CHR '':'' \<noteq> 1"
  from dataHandler_invalid_format [OF assms(1) this, of h now]
  show ?thesis by (simp add: http_Error_def StatusBadRequest_def)
next
  assume "\<exists>key valueStr. hdsRequest.Data decoded = key @ CHR '':'' # valueStr \<and>
            CHR '':'' \<notin> set key \<and> CHR '':'' \<notin> set valueStr \<and>
            strconv_ParseFloat l valueStr = None"
  then obtain key valueStr where
    "hdsRequest.Data decoded = key @ CHR '':'' # valueStr"
    "CHR '':'' \<notin> set key" "CHR '':'' \<notin> set valueStr"
    "strconv_ParseFloat l valueStr = None"
    by blast
  from dataHandler_invalid_value [OF assms(1) this, of h now]
  show ?thesis by (simp add: http_Error_def StatusBadRequest_def)
qed

theorem C2_malformed_push_witness:
  "(\<exists>resp evs. dataHandler test_lib (newHDSReceiver [Prometheus (newPrometheusExporter 9090)])
        ''heartRate:80:1'' 1000 =
      (newHDSReceiver [Prometheus (newPrometheusExporter 9090)], resp, evs) \<and> status resp = 400 \<and>
      filter is_ExporterUpdate evs = []) \<and>
   (\<exists>resp evs. dataHandler test_lib (newHDSReceiver [Prometheus (newPrometheusExporter 9090)])
        ''heartRate:fast'' 1000 =
      (newHDSReceiver [Prometheus (newPrometheusExporter 9090)], resp, evs) \<and> status resp = 400 \<and>
      filter is_ExporterUpdate evs = [])"
proof -
  have d1: "json_Decode_hdsRequest test_lib ''heartRate:80:1'' = Inr \<lparr>hdsRequest.Data = ''heartRate:80:1''\<rparr>"
    and d2: "json_Decode_hdsRequest test_lib ''heartRate:fast'' = Inr \<lparr>hdsRequest.Data = ''heartRate:fast''\<rparr>"
    by (simp_all add: test_lib_def)
  have m1: "count_list (hdsRequest.Data \<lparr>hdsRequest.Data = ''heartRate:80:1''\<rparr>) CHR '':'' \<noteq> 1 \<or>
         (\<exists>key valueStr. hdsRequest.Data \<lparr>hdsRequest.Data = ''heartRate:80:1''\<rparr> = key @ CHR '':'' # valueStr \<and>
            CHR '':'' \<notin> set key \<and> CHR '':'' \<notin> set valueStr \<and>
            strconv_ParseFloat test_lib valueStr = None)"
    by simp
  have "hdsRequest.Data \<lparr>hdsRequest.Data = ''heartRate:fast''\<rparr> = ''heartRate'' @ CHR '':'' # ''fast'' \<and>
            CHR '':'' \<notin> set ''heartRate'' \<and> CHR '':'' \<notin> set ''fast'' \<and>
            strconv_ParseFloat test_lib ''fast'' = None"
    by (simp add: test_lib_def)
  then have m2: "count_list (hdsRequest.Data \<lparr>hdsRequest.Data = ''heartRate:fast''\<rparr>) CHR '':'' \<noteq> 1 \<or>
         (\<exists>key valueStr. hdsRequest.Data \<lparr>hdsRequest.Data = ''heartRate:fast''\<rparr> = key @ CHR '':'' # valueStr \<and>
            CHR '':'' \<notin> set key \<and> CHR '':'' \<notin> set valueStr \<and>
            strconv_ParseFloat test_lib valueStr = None)"
    by blast
  from C2_malformed_push [OF d1 m1] C2_malformed_push [OF d2 m2] show ?thesis by blast
qed

text \<open>
  C9. The claim that an unrecognized key leaves the whole record unchanged fails:
  \<open>Update\<close> assigns the time before it looks at the key.
\<close>

theorem C9_unknown_key_counterexample:
  "''pace'' \<notin> set recognizedKeys \<and>
   Time (fst (healthData_Update zero_healthData ''pace'' (Finite 5) 1000)) \<noteq> Time zero_healthData"
  by (simp add: healthData_Update_def recognizedKeys_def zero_healthData_def)

text \<open>
  C9, amended. For a key that is not one of the five, \<open>Update\<close> sets the time of the
  record to the clock reading, leaves the five metric fields as they are, and logs
  one warning.
\<close>

theorem C9_unknown_key_amended:
  "key \<notin> set recognizedKeys \<Longrightarrow>
   healthData_Update d key v now = (d\<lparr>Time := now\<rparr>, [Log Warn ''Unknown key''])"
  by (simp add: healthData_Update_def recognizedKeys_def)

theorem C9_unknown_key_amended_witness:
  "healthData_Update zero_healthData ''pace'' (Finite 5) 1000 =
     (zero_healthData\<lparr>Time := 1000\<rparr>, [Log Warn ''Unknown key''])"
proof -
  have "''pace'' \<notin> set recognizedKeys" by (simp add: recognizedKeys_def)
  from C9_unknown_key_amended [OF this] show ?thesis .
qed



subsection \<open>The reconnect loop of the pull receiver\<close>

lemma Second_val: "Second = 1000000000"
  by (simp add: Second_def)

lemma wsPullFirstWait_val: "wsPullFirstWait = 1000000000"
  by (simp add: wsPullFirstWait_def Second_def)

lemma wsPullMaxBackoff_val: "wsPullMaxBackoff = 600000000000"
  by (simp add: wsPullMaxBackoff_def Minute_def Second_def wrap64_def)

lemma wrap64_id: "- (2 ^ 63) \<le> x \<Longrightarrow> x < 2 ^ 63 \<Longrightarrow> wrap64 x = x"
  by (simp add: wrap64_def)

lemma Start_sleep_clean:
  "Start_sleep h None =
     (h\<lparr>nextBackoff := 1000000000\<rparr>, [Log Info ''Reconnecting in'', Sleep 1000000000])"
  by (simp add: Start_sleep_def wsPullFirstWait_val)

lemma Start_sleep_error:
  assumes "backoff_ok h"
  shows "Start_sleep h (Some e) =
     (h\<lparr>nextBackoff := min (2 * nextBackoff h) 600000000000\<rparr>,
      [Log Error ''WebSocket connection'', Log Error ''Reconnecting in'', Sleep (nextBackoff h)])"
proof -
  from assms have "wrap64 (nextBackoff h * 2) = 2 * nextBackoff h"
    by (simp add: backoff_ok_def wrap64_id)
  then show ?thesis
    by (simp add: Start_sleep_def wsPullMaxBackoff_val)
qed

lemma Start_sleep_ok:
  assumes "backoff_ok h" and "Start_sleep h err = (h', evs)"
  shows "backoff_ok h' \<and> (\<forall>d. Sleep d \<in> set evs \<longrightarrow> 1000000000 \<le> d \<and> d \<le> 600000000000)"
proof (cases err)
  case None
  with assms(2) show ?thesis
    by (auto simp: Start_sleep_clean backoff_ok_def)
next
  case (Some e)
  with assms show ?thesis
    by (auto simp: Start_sleep_error backoff_ok_def)
qed

lemma connect_nextBackoff:
  "connect l h s = (h1, evs, r) \<Longrightarrow> nextBackoff h1 = nextBackoff h"
  by (auto simp: connect_def split: option.splits prod.splits)

lemma exporter_Update_no_Sleep:
  "exporter_Update l s d k = (s', ev, err) \<Longrightarrow> Sleep w \<notin> set ev"
  by (cases s) (auto simp: oscExporter_Update_def Let_def split: prod.splits if_splits)

lemma update_exporters_no_Sleep:
  "Sleep w \<notin> set (snd (update_exporters l i exps d k))"
proof (induction exps arbitrary: i)
  case Nil
  then show ?case by simp
next
  case (Cons s ss)
  obtain s' ev err where s: "exporter_Update l s d k = (s', ev, err)"
    by (cases "exporter_Update l s d k")
  obtain ss' evs where ss: "update_exporters l (Suc i) ss d k = (ss', evs)"
    by (cases "update_exporters l (Suc i) ss d k")
  from Cons.IH [of "Suc i"] ss have "Sleep w \<notin> set evs" by simp
  with s ss exporter_Update_no_Sleep [OF s, of w] show ?case
    by (simp split: option.splits)
qed

lemma connect_loop_no_Sleep:
  "Sleep w \<notin> set (fst (snd (connect_loop l exps rs)))"
proof (induction l exps rs rule: connect_loop.induct)
  case (4 l exps rawMsg rs)
  show ?case
  proof (cases "json_Decode_wsUpdateMessage l rawMsg")
    case (Inl e)
    then show ?thesis by simp
  next
    case (Inr msg)
    obtain exps' evs where u:
      "update_exporters l 0 exps (wsUpdateMessage.Data msg) (UpdatedKey msg) = (exps', evs)"
      by (cases "update_exporters l 0 exps (wsUpdateMessage.Data msg) (UpdatedKey msg)")
    have "Sleep w \<notin> set evs"
      using update_exporters_no_Sleep [of w l 0 exps "wsUpdateMessage.Data msg" "UpdatedKey msg"] u
      by simp
    moreover obtain exps'' evs' r where c: "connect_loop l exps' rs = (exps'', evs', r)"
      by (cases "connect_loop l exps' rs")
    moreover have "Sleep w \<notin> set evs'"
      using "4.IH" [OF Inr u [symmetric]] c by simp
    ultimately show ?thesis
      using Inr u by simp
  qed
qed simp_all

lemma connect_no_Sleep:
  "connect l h s = (h1, evs, r) \<Longrightarrow> Sleep w \<notin> set evs"
  using connect_loop_no_Sleep [of w l "wsPullReceiver.exporters h" "reads s"]
  by (auto simp: connect_def split: option.splits prod.splits)

lemma Start_ok:
  "backoff_ok h \<Longrightarrow> Start l h ss = (h', evs) \<Longrightarrow>
   backoff_ok h' \<and> (\<forall>d. Sleep d \<in> set evs \<longrightarrow> 1000000000 \<le> d \<and> d \<le> 600000000000)"
proof (induction ss arbitrary: h h' evs)
  case Nil
  then show ?case by simp
next
  case (Cons s ss)
  obtain h1 evs1 r where c: "connect l h s = (h1, evs1, r)"
    by (cases "connect l h s")
  have ok1: "backoff_ok h1"
    using Cons.prems(1) connect_nextBackoff [OF c] by (simp add: backoff_ok_def)
  have ns: "\<And>d. Sleep d \<notin> set evs1"
    using connect_no_Sleep [OF c] .
  show ?case
  proof (cases r)
    case None
    with c Cons.prems(2) have "h' = h1" "evs = evs1" by simp_all
    with ok1 ns show ?thesis by simp
  next
    case (Some err)
    obtain h2 evs2 where sl: "Start_sleep h1 err = (h2, evs2)"
      by (cases "Start_sleep h1 err")
    obtain h3 evs3 where st: "Start l h2 ss = (h3, evs3)"
      by (cases "Start l h2 ss")
    from Start_sleep_ok [OF ok1 sl]
    have ok2: "backoff_ok h2"
      and w2: "\<And>d. Sleep d \<in> set evs2 \<Longrightarrow> 1000000000 \<le> d \<and> d \<le> 600000000000"
      by blast+
    from Cons.IH [OF ok2 st]
    have ok3: "backoff_ok h3"
      and w3: "\<And>d. Sleep d \<in> set evs3 \<Longrightarrow> 1000000000 \<le> d \<and> d \<le> 600000000000"
      by blast+
    from c Some sl st Cons.prems(2) have "h' = h3" "evs = evs1 @ evs2 @ evs3"
      by simp_all
    with ok3 ns w2 w3 show ?thesis by auto
  qed
qed

lemma new_backoff_ok: "backoff_ok (newWSPullReceiver exps a)"
  by (simp add: backoff_ok_def newWSPullReceiver_def wsPullFirstWait_val)

lemma Start_example:
  "sleeps (snd (Start test_lib (newWSPullReceiver [] ''ws://localhost:8080/ws'')
     [refused, refused, closed_cleanly, refused])) = [1000000000, 2000000000, 1000000000, 1000000000]"
  by (simp add: refused_def closed_cleanly_def connect_def newWSPullReceiver_def Start_sleep_def
     wsPullFirstWait_val wsPullMaxBackoff_val wrap64_def)

lemma Start_twelve_failures:
  "sleeps (snd (Start test_lib (newWSPullReceiver [] ''ws://localhost:8080/ws'')
     (replicate 12 refused))) =
   [1000000000, 2000000000, 4000000000, 8000000000, 16000000000, 32000000000, 64000000000,
    128000000000, 256000000000, 512000000000, 600000000000, 600000000000]"
  by code_simp

text \<open>
  C3. The backoff of a new pull receiver is one second. In every state that the loop of
  \<open>Start\<close> reaches, whatever the sessions were, the backoff lies between one second
  and ten minutes, and so does every wait so far. From such a state, a session that
  ended without error is followed by a reset of the backoff to one second and a wait
  of one second; a session that ended with an error is followed by a wait of the
  current backoff, which is then doubled, capped at ten minutes.
\<close>

theorem C3_backoff:
  "nextBackoff (newWSPullReceiver exps a) = 1000000000 \<and>
   (Start l (newWSPullReceiver exps a) ss = (h, evs) \<longrightarrow>
      1000000000 \<le> nextBackoff h \<and> nextBackoff h \<le> 600000000000 \<and>
      (\<forall>d. Sleep d \<in> set evs \<longrightarrow> 1000000000 \<le> d \<and> d \<le> 600000000000) \<and>
      Start_sleep h None =
        (h\<lparr>nextBackoff := 1000000000\<rparr>, [Log Info ''Reconnecting in'', Sleep 1000000000]) \<and>
      Start_sleep h (Some e) =
        (h\<lparr>nextBackoff := min (2 * nextBackoff h) 600000000000\<rparr>,
         [Log Error ''WebSocket connection'', Log Error ''Reconnecting in'',
          Sleep (nextBackoff h)]))"
proof (intro conjI impI)
  show "nextBackoff (newWSPullReceiver exps a) = 1000000000"
    by (simp add: newWSPullReceiver_def wsPullFirstWait_val)
next
  assume run: "Start l (newWSPullReceiver exps a) ss = (h, evs)"
  from Start_ok [OF new_backoff_ok run]
  have ok: "backoff_ok h"
    and w: "\<forall>d. Sleep d \<in> set evs \<longrightarrow> 1000000000 \<le> d \<and> d \<le> 600000000000"
    by blast+
  from ok show "1000000000 \<le> nextBackoff h" "nextBackoff h \<le> 600000000000"
    by (simp_all add: backoff_ok_def)
  from w show "\<forall>d. Sleep d \<in> set evs \<longrightarrow> 1000000000 \<le> d \<and> d \<le> 600000000000" .
  show "Start_sleep h None =
        (h\<lparr>nextBackoff := 1000000000\<rparr>, [Log Info ''Reconnecting in'', Sleep 1000000000])"
    by (rule Start_sleep_clean)
  from ok show "Start_sleep h (Some e) =
        (h\<lparr>nextBackoff := min (2 * nextBackoff h) 600000000000\<rparr>,
         [Log Error ''WebSocket connection'', Log Error ''Reconnecting in'',
          Sleep (nextBackoff h)])"
    by (rule Start_sleep_error)
qed

theorem C3_backoff_witness:
  "Sleep 2000000000 \<in> set (snd (Start test_lib (newWSPullReceiver [] ''ws://localhost:8080/ws'')
       [refused, refused, closed_cleanly, refused])) \<and>
   (2000000000 :: int) \<le> 600000000000 \<and>
   nextBackoff (fst (Start test_lib (newWSPullReceiver [] ''ws://localhost:8080/ws'')
       [refused, refused, closed_cleanly, refused])) \<le> 600000000000 \<and>
   1000000000 \<le> nextBackoff (fst (Start test_lib (newWSPullReceiver [] ''ws://localhost:8080/ws'')
       [refused, refused, closed_cleanly, refused]))"
proof -
  let ?run = "Start test_lib (newWSPullReceiver [] ''ws://localhost:8080/ws'')
       [refused, refused, closed_cleanly, refused]"
  have run: "?run = (fst ?run, snd ?run)" by simp
  have mem: "Sleep 2000000000 \<in> set (snd ?run)"
    by (simp add: refused_def closed_cleanly_def connect_def newWSPullReceiver_def Start_sleep_def
        wsPullFirstWait_val wsPullMaxBackoff_val wrap64_def)
  from C3_backoff [of "[]" "''ws://localhost:8080/ws''" test_lib
      "[refused, refused, closed_cleanly, refused]" "fst ?run" "snd ?run"] run mem
  show ?thesis by blast
qed

subsection \<open>Values that \<open>float64\<close> holds exactly\<close>

lemma ilog2_lower:
  assumes "0 < a"
  shows "2 powi (ilog2 a) \<le> a"
proof -
  obtain p q where pq: "quotient_of a = (p, q)" by (cases "quotient_of a")
  then have q: "0 < q" by (rule quotient_of_denom_pos)
  from pq have a: "a = of_int p / of_int q" by (rule quotient_of_div)
  with assms q have p: "0 < p" by (simp add: zero_less_divide_iff)
  let ?d = "bitlen p - bitlen q"
  show ?thesis
  proof (cases "2 powi ?d \<le> a")
    case True
    with pq show ?thesis by (simp add: ilog2_def)
  next
    case False
    with pq have e: "ilog2 a = ?d - 1" by (simp add: ilog2_def)
    have bp: "1 \<le> bitlen p" and bq: "1 \<le> bitlen q"
      using p q by (auto simp: bitlen_alt_def)
    have "(2::int) ^ nat (bitlen p - 1) \<le> p" using bitlen_bounds [OF p] by simp
    then have lp: "(2::rat) ^ nat (bitlen p - 1) \<le> of_int p"
      by (metis of_int_le_iff of_int_numeral of_int_power)
    have "q < 2 ^ nat (bitlen q)" using bitlen_bounds [OF q] by simp
    then have "of_int q < (2::rat) ^ nat (bitlen q)"
      by (metis of_int_less_iff of_int_numeral of_int_power)
    then have lq: "of_int q \<le> (2::rat) powi (bitlen q)"
      using bq by (simp add: power_int_def)
    have "(2::rat) powi (?d - 1) = 2 powi (bitlen p - 1) / 2 powi (bitlen q)"
      by (simp add: power_int_diff)
    also have "\<dots> = 2 ^ nat (bitlen p - 1) / 2 powi (bitlen q)"
      using bp by (simp add: power_int_def)
    also have "\<dots> \<le> of_int p / 2 powi (bitlen q)"
      using lp by (simp add: divide_right_mono)
    also have "\<dots> \<le> of_int p / of_int q"
      using lq p q by (simp add: frac_le)
    finally show ?thesis using a e by simp
  qed
qed

lemma round_half_even_of_int: "round_half_even (of_int n) = n"
  by (simp add: round_half_even_def)

lemma float64_round_exact:
  assumes r: "r = of_int k * 2 powi j"
    and k: "\<bar>k\<bar> < 2 ^ 53"
    and j: "- 1074 \<le> j"
    and lim: "\<bar>r\<bar> < 2 powi 1024"
  shows "float64_round r = Finite r"
proof (cases "r = 0")
  case True
  then show ?thesis by (simp add: float64_round_def)
next
  case False
  let ?a = "\<bar>r\<bar>"
  let ?t = "max (ilog2 ?a - 52) (- 1074)"
  from False have pos: "0 < ?a" by simp
  have a: "?a = of_int \<bar>k\<bar> * 2 powi j"
    by (simp add: r abs_mult power_int_abs)
  have "of_int \<bar>k\<bar> < (2::rat) ^ 53"
    using k by (metis of_int_less_iff of_int_numeral of_int_power)
  then have "?a < 2 ^ 53 * 2 powi j"
    unfolding a by (simp add: mult_strict_right_mono)
  also have "\<dots> = 2 powi (53 + j)"
    by (simp add: power_int_add)
  finally have "2 powi (ilog2 ?a) < (2::rat) powi (53 + j)"
    using ilog2_lower [OF pos] by simp
  then have "ilog2 ?a < 53 + j"
    by (metis linorder_not_less one_less_numeral_iff power_int_increasing less_imp_le semiring_norm(76))
  with j have tj: "?t \<le> j" by simp
  define n where "n = \<bar>k\<bar> * 2 ^ nat (j - ?t)"
  have "?a / 2 powi ?t = of_int \<bar>k\<bar> * 2 powi (j - ?t)"
    unfolding a by (simp add: power_int_diff)
  also have "\<dots> = of_int n"
    using tj by (simp add: n_def power_int_def)
  finally have q: "?a / 2 powi ?t = of_int n" .
  then have "of_int n * 2 powi ?t = ?a"
    by (metis nonzero_divide_eq_eq power_int_not_zero zero_neq_numeral)
  then have v: "of_int (round_half_even (?a / 2 powi ?t)) * 2 powi ?t = ?a"
    by (simp add: q round_half_even_of_int)
  have "sgn r * ?a = r" by (simp add: sgn_mult_abs)
  with False v lim show ?thesis
    by (simp add: float64_round_def Let_def)
qed

lemma float64_round_int_div:
  assumes "\<bar>i\<bar> \<le> 2 ^ 53" and "0 \<le> m" and "m \<le> 1000"
  shows "float64_round (of_int i / 2 ^ m) = Finite (of_int i / 2 ^ m)"
proof -
  have lim: "\<bar>(of_int i :: rat) / 2 ^ m\<bar> < 2 powi 1024"
  proof -
    have "\<bar>of_int i :: rat\<bar> \<le> 2 ^ 53"
      using assms(1) by (metis of_int_abs of_int_le_iff of_int_numeral of_int_power)
    moreover have "(1::rat) \<le> 2 ^ m" by simp
    ultimately have "\<bar>(of_int i :: rat) / 2 ^ m\<bar> \<le> 2 ^ 53 / 1"
      unfolding abs_divide by (intro frac_le) simp_all
    also have "\<dots> < 2 powi 1024" by simp
    finally show ?thesis .
  qed
  show ?thesis
  proof (cases "\<bar>i\<bar> = 2 ^ 53")
    case True
    then have "i = 2 ^ 53 \<or> i = - (2 ^ 53)" by auto
    then have i: "i = 2 * (i div 2)" and k: "\<bar>i div 2\<bar> < 2 ^ 53" by auto
    have "(of_int i :: rat) = of_int (i div 2) * 2" by (subst i) simp
    then have r: "(of_int i :: rat) / 2 ^ m = of_int (i div 2) * 2 powi (1 - int m)"
      by (simp add: power_int_diff)
    show ?thesis
      by (rule float64_round_exact [OF r k _ lim]) (use assms(3) in simp)
  next
    case False
    with assms(1) have k: "\<bar>i\<bar> < 2 ^ 53" by simp
    have r: "(of_int i :: rat) / 2 ^ m = of_int i * 2 powi (- int m)"
      by (simp add: power_int_minus_divide)
    show ?thesis
      by (rule float64_round_exact [OF r k _ lim]) (use assms(3) in simp)
  qed
qed

lemma float64_of_int_exact:
  assumes "\<bar>i\<bar> \<le> 2 ^ 53"
  shows "float64_of_int i = Finite (of_int i)"
  using float64_round_int_div [OF assms, of 0] by (simp add: float64_of_int_def)

lemma float64_div_256_exact:
  assumes "\<bar>i\<bar> \<le> 2 ^ 53"
  shows "float64_div (float64_of_int i) (Finite 256) = Finite (of_int i / 256)"
  using float64_round_int_div [OF assms, of 8] by (simp add: float64_of_int_exact [OF assms])

end
